theory Spec2Isabelle
  imports Main
begin

section \<open>Replies to file attachment comments: the data\<close>

text \<open>
  The resource \<^verbatim>\<open>ReviewReplyFileAttachmentCommentResource\<close> of
  \<^verbatim>\<open>reviewboard/webapi/resources/review_reply_file_attachment_comment.py\<close> is a
  controller over a relational store. The store is modelled as explicit state that every
  handler takes and returns; what a handler answers is a value of type \<open>response\<close>, and
  an exception that the handler does not catch is a response of its own.
\<close>

subsection \<open>Rows\<close>

datatype text_type = Plain | Markdown

text \<open>
  A file attachment comment. \<open>pk\<close> is the primary key: \<open>None\<close> for an instance that
  has been constructed and not saved yet. \<open>reply_to\<close> is the foreign key to the comment
  being answered, \<open>file_attachment\<close> the foreign key to the attachment commented on.
\<close>

record comment =
  pk :: "nat option"
  file_attachment :: nat
  reply_to :: "nat option"
  comment_text :: string
  comment_text_type :: text_type

text \<open>
  A review. A reply is a review whose \<open>base_reply_to\<close> names the review it answers;
  it is a draft until it is \<open>public\<close>.
\<close>

record review =
  review_pk :: nat
  base_reply_to :: "nat option"
  public :: bool

text \<open>
  The statements a handler issues against the store, in the order it issues them. The
  journal makes \<^emph>\<open>was this save ever called\<close> a property of the state.
\<close>

datatype statement =
    SaveComment nat
  | AddFileAttachmentComment nat nat
  | SaveReview nat

text \<open>
  The store: the table of comments, the table of reviews, and the rows of the relation
  \<open>file_attachment_comments\<close> between a review and its comments, as pairs
  (review key, comment key). The source reaches the relation from both ends:
  \<^verbatim>\<open>reply.file_attachment_comments.add(new_comment)\<close> from the review, and the lookup
  \<^verbatim>\<open>review=...\<close> in a filter from the comment.
\<close>

record db =
  comments :: "comment list"
  reviews :: "nat \<rightharpoonup> review"
  file_attachment_comments :: "(nat \<times> nat) list"
  journal :: "statement list"

subsection \<open>Requests and responses\<close>

record user =
  username :: string
  is_authenticated :: bool

record request =
  request_user :: user

text \<open>
  The keyword arguments a handler receives: the keys taken from the URL
  (\<open>review_request_id\<close>, \<open>review_id\<close>, \<open>reply_id\<close>, and \<open>comment_id\<close> for an item
  request) and the request fields that \<^verbatim>\<open>webapi_request_fields\<close> has validated
  (\<open>text\<close> and \<open>text_type\<close>, each optional).
\<close>

record kwargs =
  review_request_id :: nat
  review_id :: nat
  reply_id :: nat
  comment_id :: nat
  text_arg :: "string option"
  text_type_arg :: "text_type option"

text \<open>
  The error constants of \<^verbatim>\<open>djblets.webapi.errors\<close> that the resource imports, with
  the HTTP status each one carries.
\<close>

datatype webapi_error = DOES_NOT_EXIST | INVALID_FORM_DATA | NOT_LOGGED_IN | PERMISSION_DENIED

fun http_status :: "webapi_error \<Rightarrow> nat" where
  "http_status DOES_NOT_EXIST = 404"
| "http_status INVALID_FORM_DATA = 400"
| "http_status NOT_LOGGED_IN = 401"
| "http_status PERMISSION_DENIED = 403"

text \<open>
  The exceptions of a queryset's \<^verbatim>\<open>get()\<close>. \<open>DoesNotExist\<close> is an
  \<^verbatim>\<open>ObjectDoesNotExist\<close>; \<open>MultipleObjectsReturned\<close> is not. \<open>ValueError\<close> is what
  adding an unsaved instance to a relation raises.
\<close>

datatype exn = DoesNotExist | MultipleObjectsReturned | ValueError

text \<open>
  What a handler returns: an error constant alone, an error constant with the
  \<^verbatim>\<open>fields\<close> dictionary, a status with the item payload and the extra headers (none for
  a two-tuple), or an exception that leaves the handler.
\<close>

datatype response =
    Error webapi_error
  | ErrorFields webapi_error "(string \<times> string list) list"
  | Response nat comment "(string \<times> string) list"
  | Raised exn

fun status_code :: "response \<Rightarrow> nat option" where
  "status_code (Error e) = Some (http_status e)"
| "status_code (ErrorFields e fs) = Some (http_status e)"
| "status_code (Response s c hs) = Some s"
| "status_code (Raised x) = None"

subsection \<open>Collaborators\<close>

text \<open>
  The sibling resources and the base class are not part of the file; the handlers take
  them as parameters. Each lookup reads the store and answers \<open>None\<close> where the source
  raises \<^verbatim>\<open>ObjectDoesNotExist\<close>.
  \<^item> \<open>review_request_get_object\<close>: \<^verbatim>\<open>resources.review_request.get_object\<close>;
  \<^item> \<open>review_reply_get_object\<close>: \<^verbatim>\<open>resources.review_reply.get_object\<close>;
  \<^item> \<open>has_modify_permissions\<close>: \<^verbatim>\<open>resources.review_reply.has_modify_permissions\<close>;
  \<^item> \<open>review_file_attachment_comment_get_object\<close>:
    \<^verbatim>\<open>resources.review_file_attachment_comment.get_object\<close>, called with
    \<^verbatim>\<open>comment_id=reply_to_id\<close>;
  \<^item> \<open>base_get_queryset\<close>: the rows that \<^verbatim>\<open>get_queryset\<close> of
    \<^verbatim>\<open>BaseFileAttachmentCommentResource\<close> selects, as a predicate on the rows of the
    comment table;
  \<^item> \<open>get_href\<close>: the URI of an item;
  \<^item> \<open>markdown_escape\<close>, \<open>markdown_unescape\<close>: the text conversions the shared update
    routine applies.
\<close>

record resources =
  review_request_get_object :: "request \<Rightarrow> kwargs \<Rightarrow> db \<Rightarrow> nat option"
  review_reply_get_object :: "request \<Rightarrow> kwargs \<Rightarrow> db \<Rightarrow> review option"
  has_modify_permissions :: "request \<Rightarrow> review \<Rightarrow> bool"
  review_file_attachment_comment_get_object :: "request \<Rightarrow> nat \<Rightarrow> kwargs \<Rightarrow> db \<Rightarrow> comment option"
  base_get_queryset :: "request \<Rightarrow> kwargs \<Rightarrow> db \<Rightarrow> comment \<Rightarrow> bool"
  get_href :: "comment \<Rightarrow> request \<Rightarrow> kwargs \<Rightarrow> string"
  markdown_escape :: "string \<Rightarrow> string"
  markdown_unescape :: "string \<Rightarrow> string"

section \<open>Queries\<close>

text \<open>
  The lookup \<^verbatim>\<open>review=r\<close> on a comment: the relation holds a row that joins the
  review \<open>r\<close> and the comment. An unsaved comment is in no review.
\<close>

definition in_review :: "db \<Rightarrow> comment \<Rightarrow> nat \<Rightarrow> bool" where
  "in_review d c r =
     (case pk c of None \<Rightarrow> False | Some p \<Rightarrow> (r, p) \<in> set (file_attachment_comments d))"

text \<open>
  The lookup \<^verbatim>\<open>review__base_reply_to=v\<close> for the review \<open>r\<close> of the same filter call.
\<close>

definition review_base_reply_to :: "db \<Rightarrow> nat \<Rightarrow> nat \<Rightarrow> bool" where
  "review_base_reply_to d r v =
     (case reviews d r of None \<Rightarrow> False | Some rv \<Rightarrow> base_reply_to rv = Some v)"

text \<open>
  \<^verbatim>\<open>get_queryset\<close> (lines 50 to 54): the queryset of the base class, filtered by
  \<^verbatim>\<open>review=reply_id, review__base_reply_to=review_id\<close>. Both conditions stand in one
  \<^verbatim>\<open>filter\<close> call, so they speak of the same review.
\<close>

definition get_queryset ::
  "resources \<Rightarrow> request \<Rightarrow> nat \<Rightarrow> nat \<Rightarrow> kwargs \<Rightarrow> db \<Rightarrow> comment list" where
  "get_queryset res request rev_id rep_id kw d =
     (let q = filter (base_get_queryset res request kw d) (comments d)
      in filter (\<lambda>c. in_review d c rep_id \<and> review_base_reply_to d rep_id rev_id) q)"

text \<open>
  \<^verbatim>\<open>_get_queryset\<close> of the framework calls \<^verbatim>\<open>get_queryset\<close> with the keyword
  arguments of the request, among them \<open>review_id\<close> and \<open>reply_id\<close>.
\<close>

definition get_queryset_kw :: "resources \<Rightarrow> request \<Rightarrow> kwargs \<Rightarrow> db \<Rightarrow> comment list" where
  "get_queryset_kw res request kw d =
     get_queryset res request (review_id kw) (reply_id kw) kw d"

text \<open>
  \<^verbatim>\<open>q.get()\<close>: the one row of the queryset; \<^verbatim>\<open>DoesNotExist\<close> when there is none,
  \<^verbatim>\<open>MultipleObjectsReturned\<close> when there are several.
\<close>

fun queryset_get :: "comment list \<Rightarrow> exn + comment" where
  "queryset_get [] = Inl DoesNotExist"
| "queryset_get [c] = Inr c"
| "queryset_get (c # c' # cs) = Inl MultipleObjectsReturned"

text \<open>
  \<^verbatim>\<open>self.get_object\<close> of the framework, for an item request: the row of the resource's
  queryset whose key is the \<open>comment_id\<close> of the URL.
\<close>

definition get_object :: "resources \<Rightarrow> request \<Rightarrow> kwargs \<Rightarrow> db \<Rightarrow> exn + comment" where
  "get_object res request kw d =
     queryset_get (filter (\<lambda>c. pk c = Some (comment_id kw)) (get_queryset_kw res request kw d))"

section \<open>Writes\<close>

text \<open>
  The largest key in the comment table, and the largest comment key in the relation. An
  insert takes a key above both: the database hands out no key twice, and the relation
  holds only keys that were handed out.
\<close>

fun max_pk :: "comment list \<Rightarrow> nat" where
  "max_pk [] = 0"
| "max_pk (c # cs) = max (case pk c of None \<Rightarrow> 0 | Some p \<Rightarrow> p) (max_pk cs)"

fun max_joined :: "(nat \<times> nat) list \<Rightarrow> nat" where
  "max_joined [] = 0"
| "max_joined (rp # rps) = max (snd rp) (max_joined rps)"

definition next_pk :: "db \<Rightarrow> nat" where
  "next_pk d = Suc (max (max_pk (comments d)) (max_joined (file_attachment_comments d)))"

text \<open>
  Modelled from the spec: the review a comment belongs to (the field \<open>review\<close> of the
  spec's data model), read through the relation: the first row that joins the comment to
  a review of the table, with the key of that review. \<open>None\<close> when the comment is joined
  to no review, as a comment is before it is added to one.
\<close>

definition get_review :: "db \<Rightarrow> nat \<Rightarrow> (nat \<times> review) option" where
  "get_review d p =
     (case find (\<lambda>rp. snd rp = p \<and> reviews d (fst rp) \<noteq> None) (file_attachment_comments d) of
        None \<Rightarrow> None
      | Some rp \<Rightarrow>
          (case reviews d (fst rp) of None \<Rightarrow> None | Some rv \<Rightarrow> Some (fst rp, rv)))"

text \<open>
  The statements that the save of the comment with key \<open>p\<close> issues for its review: the
  save of that review while it is a draft, none otherwise.
\<close>

definition draft_review_statements :: "db \<Rightarrow> nat \<Rightarrow> statement list" where
  "draft_review_statements d p =
     (case get_review d p of
        None \<Rightarrow> []
      | Some (r, rv) \<Rightarrow> if public rv then [] else [SaveReview r])"

text \<open>
  Modelled from the spec: the second step of the save of a comment. The spec leaves the
  save to the shared comment base entity, which is not part of the file, and does not
  detail it; the repository's save of a comment also saves the review the comment belongs
  to while that review is a draft, and this step is modelled here. The row of the review
  is written back as it was read (the time stamp it receives is not modelled). A published
  review, and a comment without a review, lead to no write.
\<close>

definition save_draft_review :: "nat \<Rightarrow> db \<Rightarrow> db" where
  "save_draft_review p d =
     (case get_review d p of
        None \<Rightarrow> d
      | Some (r, rv) \<Rightarrow>
          if public rv then d
          else d\<lparr>reviews := (reviews d)(r \<mapsto> rv), journal := journal d @ [SaveReview r]\<rparr>)"

text \<open>
  Modelled from the spec: \<^verbatim>\<open>comment.save()\<close>, the step by which the shared update
  routine persists the new or existing comment; it is not part of the file. An instance
  without a key is inserted and receives a fresh key; an instance with a key replaces the
  row of that key, and is inserted when there is no such row. The draft review of the
  comment is saved after the row. The instance the caller holds afterwards is the first
  component.
\<close>

definition save_comment :: "comment \<Rightarrow> db \<Rightarrow> comment \<times> db" where
  "save_comment c d =
     (case pk c of
        None \<Rightarrow>
          (let p = next_pk d; c' = c\<lparr>pk := Some p\<rparr>
           in (c', save_draft_review p
                     (d\<lparr>comments := comments d @ [c'],
                        journal := journal d @ [SaveComment p]\<rparr>)))
      | Some p \<Rightarrow>
          (if Some p \<in> set (map pk (comments d))
           then (c, save_draft_review p
                      (d\<lparr>comments := map (\<lambda>x. if pk x = Some p then c else x) (comments d),
                         journal := journal d @ [SaveComment p]\<rparr>))
           else (c, save_draft_review p
                      (d\<lparr>comments := comments d @ [c],
                         journal := journal d @ [SaveComment p]\<rparr>))))"

text \<open>
  \<^verbatim>\<open>reply.file_attachment_comments.add(new_comment)\<close>: the relation gains the row
  that joins the two, unless it holds it already.
\<close>

definition file_attachment_comments_add :: "nat \<Rightarrow> nat \<Rightarrow> db \<Rightarrow> db" where
  "file_attachment_comments_add r p d =
     d\<lparr>file_attachment_comments :=
         (if (r, p) \<in> set (file_attachment_comments d) then file_attachment_comments d
          else file_attachment_comments d @ [(r, p)]),
       journal := journal d @ [AddFileAttachmentComment r p]\<rparr>"

text \<open>
  \<^verbatim>\<open>reply.save()\<close> of line 120: the row of the review is written from the instance.
\<close>

definition review_save :: "review \<Rightarrow> db \<Rightarrow> db" where
  "review_save rv d =
     d\<lparr>reviews := (reviews d)(review_pk rv \<mapsto> rv),
       journal := journal d @ [SaveReview (review_pk rv)]\<rparr>"

section \<open>The shared update routine\<close>

text \<open>
  Modelled from the spec: \<^verbatim>\<open>update_comment\<close> of the base class, which the file calls
  and does not define. The spec gives its policy as a function of the old type, the new
  type, the old text and the new text if any: new text, when supplied, is taken as it is;
  without new text, a switch from plain to markdown escapes the existing text, a switch
  from markdown to plain unescapes it, and otherwise the text stays.
\<close>

definition normalize_text ::
  "resources \<Rightarrow> text_type \<Rightarrow> text_type \<Rightarrow> string \<Rightarrow> string option \<Rightarrow> string" where
  "normalize_text res old_type new_type old_text new_text =
     (case new_text of
        Some t \<Rightarrow> t
      | None \<Rightarrow>
          if old_type = Plain \<and> new_type = Markdown then markdown_escape res old_text
          else if old_type = Markdown \<and> new_type = Plain then markdown_unescape res old_text
          else old_text)"

text \<open>
  Modelled from the spec: \<^verbatim>\<open>update_comment(comment, is_reply=True, **kwargs)\<close>. It
  applies the text and type fields of the request and persists the comment; the type
  stays as it is when the request names none. No other field is written.
\<close>

definition update_comment :: "resources \<Rightarrow> comment \<Rightarrow> kwargs \<Rightarrow> db \<Rightarrow> comment \<times> db" where
  "update_comment res c kw d =
     (let new_type = (case text_type_arg kw of None \<Rightarrow> comment_text_type c | Some t \<Rightarrow> t);
          c' = c\<lparr>comment_text :=
                   normalize_text res (comment_text_type c) new_type (comment_text c) (text_arg kw),
                 comment_text_type := new_type\<rparr>
      in save_comment c' d)"

section \<open>The handlers\<close>

text \<open>
  \<^verbatim>\<open>_no_access_error\<close> of the framework: \<^verbatim>\<open>PERMISSION_DENIED\<close> for a user who is
  logged in, \<^verbatim>\<open>NOT_LOGGED_IN\<close> otherwise. Both handlers stand behind
  \<^verbatim>\<open>webapi_login_required\<close> (lines 57 and 130), which answers a request that is not
  logged in before the body runs.
\<close>

definition no_access_error :: "user \<Rightarrow> response" where
  "no_access_error u = (if is_authenticated u then Error PERMISSION_DENIED else Error NOT_LOGGED_IN)"

text \<open>
  The instance that \<^verbatim>\<open>self.model(file_attachment=comment.file_attachment,
  reply_to=comment)\<close> constructs (lines 108 and 109): unsaved, with empty plain text.
\<close>

definition new_reply_comment :: "comment \<Rightarrow> comment" where
  "new_reply_comment original =
     \<lparr>pk = None, file_attachment = file_attachment original, reply_to = pk original,
      comment_text = [], comment_text_type = Plain\<rparr>"

text \<open>
  The query of lines 98 and 99: the queryset of the resource, filtered by
  \<^verbatim>\<open>Q(reply_to=comment) & Q(review=reply)\<close>.
\<close>

abbreviation reply_query ::
  "resources \<Rightarrow> request \<Rightarrow> kwargs \<Rightarrow> db \<Rightarrow> comment \<Rightarrow> review \<Rightarrow> comment list" where
  "reply_query res request kw d comment reply \<equiv>
     filter (\<lambda>c. reply_to c = pk comment \<and> in_review d c (review_pk reply))
       (get_queryset_kw res request kw d)"

text \<open>
  \<^verbatim>\<open>create\<close> (lines 66 to 127), the body behind its decorators. The two lookups of
  the first \<^verbatim>\<open>try\<close> answer \<^verbatim>\<open>DOES_NOT_EXIST\<close> when either fails; then comes the
  permission check, then the lookup of the comment replied to. The second \<^verbatim>\<open>try\<close>
  catches \<^verbatim>\<open>DoesNotExist\<close> only, so any other exception of \<^verbatim>\<open>q.get()\<close> leaves the
  handler. \<^verbatim>\<open>update_comment\<close> runs on both paths, the relation and the reply are
  written on the new path only.
\<close>

definition create :: "resources \<Rightarrow> request \<Rightarrow> nat \<Rightarrow> kwargs \<Rightarrow> db \<Rightarrow> response \<times> db" where
  "create res request reply_to_id kw d =
     (case review_request_get_object res request kw d of
        None \<Rightarrow> (Error DOES_NOT_EXIST, d)
      | Some review_request \<Rightarrow>
     (case review_reply_get_object res request kw d of
        None \<Rightarrow> (Error DOES_NOT_EXIST, d)
      | Some reply \<Rightarrow>
     if \<not> has_modify_permissions res request reply
     then (no_access_error (request_user request), d)
     else
     (case review_file_attachment_comment_get_object res request reply_to_id kw d of
        None \<Rightarrow>
          (ErrorFields INVALID_FORM_DATA
             [(''reply_to_id'', [''This is not a valid file comment ID''])], d)
      | Some comment \<Rightarrow>
     (let q = reply_query res request kw d comment reply
      in case (case queryset_get q of
                 Inr found \<Rightarrow> Inr (found, False)
               | Inl e \<Rightarrow>
                   if e = DoesNotExist then Inr (new_reply_comment comment, True) else Inl e) of
           Inl e \<Rightarrow> (Raised e, d)
         | Inr (new_comment, is_new) \<Rightarrow>
             (case update_comment res new_comment kw d of
                (new_comment, d) \<Rightarrow>
                  if is_new
                  then (case pk new_comment of
                          None \<Rightarrow> (Raised ValueError, d)
                        | Some p \<Rightarrow>
                            (Response 201 new_comment [],
                             review_save reply
                               (file_attachment_comments_add (review_pk reply) p d)))
                  else (Response 303 new_comment
                          [(''Location'', get_href res new_comment request kw)], d))))))"

text \<open>
  \<^verbatim>\<open>update\<close> (lines 135 to 166), the body behind its decorators. The three lookups
  stand in one \<^verbatim>\<open>try\<close> that catches \<^verbatim>\<open>ObjectDoesNotExist\<close>; the permission check
  follows it.
\<close>

definition update :: "resources \<Rightarrow> request \<Rightarrow> kwargs \<Rightarrow> db \<Rightarrow> response \<times> db" where
  "update res request kw d =
     (case review_request_get_object res request kw d of
        None \<Rightarrow> (Error DOES_NOT_EXIST, d)
      | Some review_request \<Rightarrow>
     (case review_reply_get_object res request kw d of
        None \<Rightarrow> (Error DOES_NOT_EXIST, d)
      | Some reply \<Rightarrow>
     (case get_object res request kw d of
        Inl e \<Rightarrow> if e = DoesNotExist then (Error DOES_NOT_EXIST, d) else (Raised e, d)
      | Inr file_comment \<Rightarrow>
          if \<not> has_modify_permissions res request reply
          then (no_access_error (request_user request), d)
          else (case update_comment res file_comment kw d of
                  (file_comment, d) \<Rightarrow> (Response 200 file_comment [], d)))))"


section \<open>Integrity of the store\<close>






section \<open>A concrete store\<close>

text \<open>
  One review request (key 1) with a review (key 2) that holds one comment (key 5) on the
  file attachment 9, and a draft reply (key 3) to that review. The reply belongs to
  alice: she may modify it, bob may not.
\<close>

definition example_resources :: resources where
  "example_resources =
     \<lparr>review_request_get_object =
        (\<lambda>request kw d. if review_request_id kw = 1 then Some 1 else None),
      review_reply_get_object =
        (\<lambda>request kw d. case reviews d (reply_id kw) of
             None \<Rightarrow> None
           | Some r \<Rightarrow>
               if review_pk r = reply_id kw \<and> base_reply_to r = Some (review_id kw)
               then Some r else None),
      has_modify_permissions = (\<lambda>request r. username (request_user request) = ''alice''),
      review_file_attachment_comment_get_object =
        (\<lambda>request i kw d. find (\<lambda>c. pk c = Some i \<and> reply_to c = None) (comments d)),
      base_get_queryset = (\<lambda>request kw d c. True),
      get_href = (\<lambda>c request kw. ''/replies/file-attachment-comments/''),
      markdown_escape = (\<lambda>s. s),
      markdown_unescape = (\<lambda>s. s)\<rparr>"

definition original_comment :: comment where
  "original_comment =
     \<lparr>pk = Some 5, file_attachment = 9, reply_to = None,
      comment_text = ''original'', comment_text_type = Plain\<rparr>"

definition reply_comment :: comment where
  "reply_comment =
     \<lparr>pk = Some 6, file_attachment = 9, reply_to = Some 5,
      comment_text = ''a reply'', comment_text_type = Plain\<rparr>"

definition parent_review :: review where
  "parent_review = \<lparr>review_pk = 2, base_reply_to = None, public = True\<rparr>"

definition draft_reply :: review where
  "draft_reply = \<lparr>review_pk = 3, base_reply_to = Some 2, public = False\<rparr>"

definition example_db :: db where
  "example_db =
     \<lparr>comments = [original_comment],
      reviews = [2 \<mapsto> parent_review, 3 \<mapsto> draft_reply],
      file_attachment_comments = [(2, 5)],
      journal = []\<rparr>"

text \<open>The same store once alice has replied to the comment.\<close>

definition replied_db :: db where
  "replied_db =
     \<lparr>comments = [original_comment, reply_comment],
      reviews = [2 \<mapsto> parent_review, 3 \<mapsto> draft_reply],
      file_attachment_comments = [(2, 5), (3, 6)],
      journal = [SaveComment 6, AddFileAttachmentComment 3 6, SaveReview 3]\<rparr>"

definition alice :: request where
  "alice = \<lparr>request_user = \<lparr>username = ''alice'', is_authenticated = True\<rparr>\<rparr>"

definition bob :: request where
  "bob = \<lparr>request_user = \<lparr>username = ''bob'', is_authenticated = True\<rparr>\<rparr>"

definition example_kwargs :: kwargs where
  "example_kwargs =
     \<lparr>review_request_id = 1, review_id = 2, reply_id = 3, comment_id = 6,
      text_arg = Some ''a reply'', text_type_arg = None\<rparr>"

text \<open>A store that holds two replies of the draft reply to the one comment.\<close>

definition second_reply_comment :: comment where
  "second_reply_comment =
     \<lparr>pk = Some 7, file_attachment = 9, reply_to = Some 5,
      comment_text = ''another reply'', comment_text_type = Plain\<rparr>"

definition doubled_db :: db where
  "doubled_db =
     \<lparr>comments = [original_comment, reply_comment, second_reply_comment],
      reviews = [2 \<mapsto> parent_review, 3 \<mapsto> draft_reply],
      file_attachment_comments = [(2, 5), (3, 6), (3, 7)],
      journal = []\<rparr>"

text \<open>The request fields of a second post, with another text.\<close>

definition second_kwargs :: kwargs where
  "second_kwargs =
     \<lparr>review_request_id = 1, review_id = 2, reply_id = 3, comment_id = 6,
      text_arg = Some ''second'', text_type_arg = Some Markdown\<rparr>"

text \<open>Collaborators whose base class selects no comment at all.\<close>

definition narrow_resources :: resources where
  "narrow_resources = example_resources\<lparr>base_get_queryset := (\<lambda>request kw d c. False)\<rparr>"

section \<open>Theorems\<close>

subsection \<open>Evaluation of the concrete store\<close>

lemmas example_defs = example_resources_def original_comment_def reply_comment_def
  parent_review_def draft_reply_def example_db_def replied_db_def alice_def bob_def
  example_kwargs_def second_reply_comment_def doubled_db_def second_kwargs_def
  narrow_resources_def

lemmas model_defs = create_def update_def get_object_def get_queryset_kw_def get_queryset_def
  in_review_def review_base_reply_to_def update_comment_def save_comment_def
  normalize_text_def new_reply_comment_def file_attachment_comments_add_def review_save_def
  no_access_error_def next_pk_def get_review_def save_draft_review_def Let_def



subsection \<open>Queries and writes\<close>

lemma queryset_get_Inr: "queryset_get xs = Inr c \<longleftrightarrow> xs = [c]"
  by (cases xs rule: queryset_get.cases) auto





lemma max_joined_ge: "(r, p) \<in> set rps \<Longrightarrow> p \<le> max_joined rps"
  by (induction rps) auto


lemma fresh_joined: "(r, next_pk d) \<notin> set (file_attachment_comments d)"
proof
  assume "(r, next_pk d) \<in> set (file_attachment_comments d)"
  then have "next_pk d \<le> max_joined (file_attachment_comments d)"
    by (rule max_joined_ge)
  then show False by (simp add: next_pk_def)
qed

lemma find_Some_member: "find P xs = Some x \<Longrightarrow> P x \<and> x \<in> set xs"
  by (induction xs) (auto split: if_splits)

text \<open>The review of a comment is a row of the review table, found under its key.\<close>

lemma get_review_Some:
  assumes "get_review d p = Some (r, rv)"
  shows "reviews d r = Some rv" and "(r, p) \<in> set (file_attachment_comments d)"
proof -
  from assms obtain rp where f: "find (\<lambda>rp. snd rp = p \<and> reviews d (fst rp) \<noteq> None)
      (file_attachment_comments d) = Some rp" and r: "fst rp = r" and rv: "reviews d (fst rp) = Some rv"
    by (auto simp: get_review_def split: option.splits)
  show "reviews d r = Some rv"
    using r rv by simp
  from find_Some_member [OF f] have "rp \<in> set (file_attachment_comments d)" and "snd rp = p"
    by simp_all
  moreover have "rp = (r, p)"
    using r \<open>snd rp = p\<close> by (cases rp) simp
  ultimately show "(r, p) \<in> set (file_attachment_comments d)"
    by simp
qed

lemma get_review_unjoined:
  assumes "\<And>r. (r, p) \<notin> set (file_attachment_comments d)"
  shows "get_review d p = None"
proof (cases "get_review d p")
  case None
  then show ?thesis .
next
  case (Some a)
  then have "(fst a, p) \<in> set (file_attachment_comments d)"
    using get_review_Some(2) [of d p "fst a" "snd a"] by simp
  with assms show ?thesis by simp
qed

lemma get_review_cong:
  "file_attachment_comments d' = file_attachment_comments d \<Longrightarrow> reviews d' = reviews d \<Longrightarrow>
   get_review d' p = get_review d p"
  by (simp add: get_review_def cong: option.case_cong)

lemma save_draft_review_frame:
  shows "comments (save_draft_review p d) = comments d"
    and "file_attachment_comments (save_draft_review p d) = file_attachment_comments d"
    and "reviews (save_draft_review p d) = reviews d"
    and "journal (save_draft_review p d) = journal d @ draft_review_statements d p"
proof -
  show "comments (save_draft_review p d) = comments d"
    by (simp add: save_draft_review_def split: option.split)
  show "file_attachment_comments (save_draft_review p d) = file_attachment_comments d"
    by (simp add: save_draft_review_def split: option.split)
  show "journal (save_draft_review p d) = journal d @ draft_review_statements d p"
    by (simp add: save_draft_review_def draft_review_statements_def split: option.split)
  show "reviews (save_draft_review p d) = reviews d"
  proof (cases "get_review d p")
    case None
    then show ?thesis by (simp add: save_draft_review_def)
  next
    case (Some a)
    obtain r rv where a: "a = (r, rv)" by (cases a)
    have "reviews d r = Some rv"
      using get_review_Some(1) Some a by simp
    then have "(reviews d)(r \<mapsto> rv) = reviews d"
      by (rule map_upd_triv)
    then show ?thesis
      using Some a by (simp add: save_draft_review_def)
  qed
qed

text \<open>
  What the shared update routine does to a row of the table, and to an unsaved instance.
\<close>

lemma update_comment_saved:
  assumes "c \<in> set (comments d)" and "pk c = Some p"
    and "update_comment res c kw d = (c', d')"
  shows "c' = c\<lparr>comment_text :=
                   normalize_text res (comment_text_type c)
                     (case text_type_arg kw of None \<Rightarrow> comment_text_type c | Some t \<Rightarrow> t)
                     (comment_text c) (text_arg kw),
                 comment_text_type :=
                   (case text_type_arg kw of None \<Rightarrow> comment_text_type c | Some t \<Rightarrow> t)\<rparr>"
    and "comments d' = map (\<lambda>x. if pk x = Some p then c' else x) (comments d)"
    and "reviews d' = reviews d"
    and "file_attachment_comments d' = file_attachment_comments d"
    and "journal d' = journal d @ SaveComment p # draft_review_statements d p"
    and "c' = c\<lparr>comment_text := comment_text c', comment_text_type := comment_text_type c'\<rparr>"
proof -
  let ?c = "c\<lparr>comment_text :=
                   normalize_text res (comment_text_type c)
                     (case text_type_arg kw of None \<Rightarrow> comment_text_type c | Some t \<Rightarrow> t)
                     (comment_text c) (text_arg kw),
                 comment_text_type :=
                   (case text_type_arg kw of None \<Rightarrow> comment_text_type c | Some t \<Rightarrow> t)\<rparr>"
  let ?d = "d\<lparr>comments := map (\<lambda>x. if pk x = Some p then ?c else x) (comments d),
               journal := journal d @ [SaveComment p]\<rparr>"
  have mem: "Some p \<in> set (map pk (comments d))"
    using assms(1,2) by force
  have "update_comment res c kw d = (?c, save_draft_review p ?d)"
    using mem assms(2) by (simp add: update_comment_def save_comment_def Let_def)
  with assms(3) have c': "c' = ?c" and d': "d' = save_draft_review p ?d"
    by simp_all
  show "c' = ?c" by (rule c')
  show "c' = c\<lparr>comment_text := comment_text c', comment_text_type := comment_text_type c'\<rparr>"
    by (simp add: c')
  show "comments d' = map (\<lambda>x. if pk x = Some p then c' else x) (comments d)"
    by (simp add: d' c' save_draft_review_frame(1))
  show "reviews d' = reviews d"
    by (simp add: d' save_draft_review_frame(3))
  show "file_attachment_comments d' = file_attachment_comments d"
    by (simp add: d' save_draft_review_frame(2))
  have "get_review ?d p = get_review d p"
    by (rule get_review_cong) simp_all
  then have "draft_review_statements ?d p = draft_review_statements d p"
    by (simp add: draft_review_statements_def)
  then show "journal d' = journal d @ SaveComment p # draft_review_statements d p"
    by (simp add: d' save_draft_review_frame(4))
qed

lemma update_comment_inserted:
  assumes "pk c = None" and "update_comment res c kw d = (c', d')"
  shows "c' = c\<lparr>pk := Some (next_pk d),
                 comment_text := comment_text c', comment_text_type := comment_text_type c'\<rparr>"
    and "comments d' = comments d @ [c']"
    and "reviews d' = reviews d"
    and "file_attachment_comments d' = file_attachment_comments d"
    and "journal d' = journal d @ [SaveComment (next_pk d)]"
proof -
  let ?p = "next_pk d"
  obtain c1 where c1: "c1 = c\<lparr>comment_text :=
                   normalize_text res (comment_text_type c)
                     (case text_type_arg kw of None \<Rightarrow> comment_text_type c | Some t \<Rightarrow> t)
                     (comment_text c) (text_arg kw),
                 comment_text_type :=
                   (case text_type_arg kw of None \<Rightarrow> comment_text_type c | Some t \<Rightarrow> t),
                 pk := Some ?p\<rparr>"
    by simp
  let ?d = "d\<lparr>comments := comments d @ [c1], journal := journal d @ [SaveComment ?p]\<rparr>"
  have "update_comment res c kw d = (c1, save_draft_review ?p ?d)"
    using assms(1) by (simp add: update_comment_def save_comment_def Let_def c1)
  then have "(c', d') = (c1, save_draft_review ?p ?d)"
    using assms(2) by simp
  then have c': "c' = c1" and d': "d' = save_draft_review ?p ?d"
    by blast+
  have "\<And>r. (r, ?p) \<notin> set (file_attachment_comments ?d)"
    by (simp add: fresh_joined)
  then have none: "get_review ?d ?p = None"
    by (rule get_review_unjoined)
  show "c' = c\<lparr>pk := Some (next_pk d),
                 comment_text := comment_text c', comment_text_type := comment_text_type c'\<rparr>"
    by (simp add: c' c1)
  show "comments d' = comments d @ [c']"
    by (simp add: d' c' save_draft_review_frame(1))
  show "reviews d' = reviews d"
    by (simp add: d' save_draft_review_frame(3))
  show "file_attachment_comments d' = file_attachment_comments d"
    by (simp add: d' save_draft_review_frame(2))
  show "journal d' = journal d @ [SaveComment (next_pk d)]"
    by (simp add: d' save_draft_review_frame(4) draft_review_statements_def none)
qed

text \<open>
  Without new text, the routine converts the existing text when the type switches.
\<close>

lemma update_comment_converts:
  assumes "text_arg kw = None" and "update_comment res c kw d = (c', d')"
  shows "comment_text_type c = Plain \<Longrightarrow> text_type_arg kw = Some Markdown \<Longrightarrow>
           comment_text c' = markdown_escape res (comment_text c)"
    and "comment_text_type c = Markdown \<Longrightarrow> text_type_arg kw = Some Plain \<Longrightarrow>
           comment_text c' = markdown_unescape res (comment_text c)"
  using assms
  by (auto simp: update_comment_def save_comment_def normalize_text_def Let_def
      split: option.splits if_splits)

subsection \<open>The paths of create\<close>


lemma create_fresh:
  assumes "review_request_get_object res request kw d = Some review_request"
    and "review_reply_get_object res request kw d = Some reply"
    and "has_modify_permissions res request reply"
    and "review_file_attachment_comment_get_object res request reply_to_id kw d = Some original"
    and "reply_query res request kw d original reply = []"
    and "update_comment res (new_reply_comment original) kw d = (c', d')"
    and "pk c' = Some p"
  shows "create res request reply_to_id kw d =
           (Response 201 c' [],
            review_save reply (file_attachment_comments_add (review_pk reply) p d'))"
  using assms by (simp add: create_def)

lemma create_many:
  assumes "review_request_get_object res request kw d = Some review_request"
    and "review_reply_get_object res request kw d = Some reply"
    and "has_modify_permissions res request reply"
    and "review_file_attachment_comment_get_object res request reply_to_id kw d = Some original"
    and "reply_query res request kw d original reply = x # y # zs"
  shows "create res request reply_to_id kw d = (Raised MultipleObjectsReturned, d)"
  using assms by (simp add: create_def)


subsection \<open>The integrity of the store is kept\<close>







subsection \<open>The claims\<close>

text \<open>
  C1. A create request whose review request and reply resolve, whose caller may modify
  the reply, whose \<open>reply_to_id\<close> names an existing comment, and for which no reply
  comment is yet joined to the reply for that comment, is answered with 201 and the new
  comment. The new comment carries the file attachment of the original and answers the
  original; it is a row of the table afterwards, it is joined to the reply, and the reply
  has been saved. The journal shows the three writes in their order.
\<close>

theorem create_new_reply:
  assumes "review_request_get_object res request kw d = Some review_request"
    and "review_reply_get_object res request kw d = Some reply"
    and "has_modify_permissions res request reply"
    and "review_file_attachment_comment_get_object res request reply_to_id kw d = Some original"
    and "\<forall>c \<in> set (comments d).
           \<not> (reply_to c = pk original \<and> in_review d c (review_pk reply))"
  shows "\<exists>new p d'.
           create res request reply_to_id kw d = (Response 201 new [], d') \<and>
           pk new = Some p \<and>
           file_attachment new = file_attachment original \<and>
           reply_to new = pk original \<and>
           comments d' = comments d @ [new] \<and>
           (review_pk reply, p) \<in> set (file_attachment_comments d') \<and>
           reviews d' (review_pk reply) = Some reply \<and>
           journal d' = journal d @ [SaveComment p,
             AddFileAttachmentComment (review_pk reply) p, SaveReview (review_pk reply)]"
proof -
  let ?p = "next_pk d"
  let ?r = "review_pk reply"
  obtain new d1 where upd: "update_comment res (new_reply_comment original) kw d = (new, d1)"
    by (cases "update_comment res (new_reply_comment original) kw d")
  let ?d' = "review_save reply (file_attachment_comments_add ?r ?p d1)"
  have unsaved: "pk (new_reply_comment original) = None"
    by (simp add: new_reply_comment_def)
  note u = update_comment_inserted [OF unsaved upd]
  have k: "pk new = Some ?p"
    and fa: "file_attachment new = file_attachment original"
    and rt: "reply_to new = pk original"
    by (subst u(1), simp add: new_reply_comment_def)+
  have q: "reply_query res request kw d original reply = []"
    using assms(5) by (auto simp: filter_empty_conv get_queryset_kw_def get_queryset_def)
  have "create res request reply_to_id kw d = (Response 201 new [], ?d')"
    by (rule create_fresh [OF assms(1-4) q upd k])
  moreover have "comments ?d' = comments d @ [new]"
    by (simp add: review_save_def file_attachment_comments_add_def u(2))
  moreover have "(?r, ?p) \<in> set (file_attachment_comments ?d')"
    by (simp add: review_save_def file_attachment_comments_add_def)
  moreover have "reviews ?d' ?r = Some reply"
    by (simp add: review_save_def)
  moreover have "journal ?d' = journal d @ [SaveComment ?p,
      AddFileAttachmentComment ?r ?p, SaveReview ?r]"
    by (simp add: review_save_def file_attachment_comments_add_def u(5))
  ultimately show ?thesis
    using k fa rt by blast
qed

theorem create_new_reply_witness:
  "review_request_get_object example_resources alice example_kwargs example_db = Some 1 \<and>
   review_reply_get_object example_resources alice example_kwargs example_db = Some draft_reply \<and>
   has_modify_permissions example_resources alice draft_reply \<and>
   review_file_attachment_comment_get_object example_resources alice 5 example_kwargs example_db
     = Some original_comment \<and>
   \<not> (\<exists>c \<in> set (comments example_db).
        reply_to c = pk original_comment \<and> in_review example_db c (review_pk draft_reply)) \<and>
   create example_resources alice 5 example_kwargs example_db =
     (Response 201 reply_comment [], replied_db)"
proof -
  have h1: "review_request_get_object example_resources alice example_kwargs example_db = Some 1"
    by (simp add: example_defs)
  have h2: "review_reply_get_object example_resources alice example_kwargs example_db
              = Some draft_reply"
    by (simp add: example_defs)
  have h3: "has_modify_permissions example_resources alice draft_reply"
    by (simp add: example_defs)
  have h4: "review_file_attachment_comment_get_object example_resources alice 5 example_kwargs
              example_db = Some original_comment"
    by (simp add: example_defs)
  have h5: "\<forall>c \<in> set (comments example_db).
      \<not> (reply_to c = pk original_comment \<and> in_review example_db c (review_pk draft_reply))"
    by (simp add: example_defs in_review_def)
  have "create example_resources alice 5 example_kwargs example_db =
          (Response 201 reply_comment [], replied_db)"
    using create_new_reply [OF h1 h2 h3 h4 h5]
    by (simp add: example_defs model_defs)
  then show ?thesis
    using h1 h2 h3 h4 h5 by blast
qed


text \<open>
  The lookup before the insert sees the rows of the resource's queryset only: with a base
  class that selects no comment, a second reply is inserted for the same pair.
\<close>

lemma create_duplicates_outside_queryset:
  "fst (create narrow_resources alice 5 second_kwargs replied_db) =
     Response 201
       \<lparr>pk = Some 7, file_attachment = 9, reply_to = Some 5,
        comment_text = ''second'', comment_text_type = Markdown\<rparr> [] \<and>
   length (comments (snd (create narrow_resources alice 5 second_kwargs replied_db))) = 3"
  by (simp add: example_defs model_defs)



text \<open>
  C3. When the review request and the reply resolve and the caller may modify the reply,
  but \<open>reply_to_id\<close> names no comment, create answers \<^verbatim>\<open>INVALID_FORM_DATA\<close>
  (status 400) with the field \<open>reply_to_id\<close> in its payload, and the store is as it was.
\<close>

theorem create_invalid_reply_to_id:
  assumes "review_request_get_object res request kw d = Some review_request"
    and "review_reply_get_object res request kw d = Some reply"
    and "has_modify_permissions res request reply"
    and "review_file_attachment_comment_get_object res request reply_to_id kw d = None"
  shows "create res request reply_to_id kw d =
           (ErrorFields INVALID_FORM_DATA
              [(''reply_to_id'', [''This is not a valid file comment ID''])], d)
         \<and> status_code (fst (create res request reply_to_id kw d)) = Some 400"
  using assms by (simp add: create_def)

theorem create_invalid_reply_to_id_witness:
  "review_request_get_object example_resources alice example_kwargs example_db = Some 1 \<and>
   review_reply_get_object example_resources alice example_kwargs example_db = Some draft_reply \<and>
   has_modify_permissions example_resources alice draft_reply \<and>
   review_file_attachment_comment_get_object example_resources alice 7 example_kwargs example_db
     = None \<and>
   create example_resources alice 7 example_kwargs example_db =
     (ErrorFields INVALID_FORM_DATA
        [(''reply_to_id'', [''This is not a valid file comment ID''])], example_db) \<and>
   status_code (fst (create example_resources alice 7 example_kwargs example_db)) = Some 400"
proof -
  have h1: "review_request_get_object example_resources alice example_kwargs example_db = Some 1"
    by (simp add: example_defs)
  have h2: "review_reply_get_object example_resources alice example_kwargs example_db
              = Some draft_reply"
    by (simp add: example_defs)
  have h3: "has_modify_permissions example_resources alice draft_reply"
    by (simp add: example_defs)
  have h4: "review_file_attachment_comment_get_object example_resources alice 7 example_kwargs
              example_db = None"
    by (simp add: example_defs)
  show ?thesis
    using h1 h2 h3 h4 create_invalid_reply_to_id [OF h1 h2 h3 h4] by simp
qed

text \<open>
  C4. As stated, the claim fails for update: the target comment is looked up before the
  permission check, so a caller without permission who names a missing comment is answered
  with \<^verbatim>\<open>DOES_NOT_EXIST\<close>. The store below has no comment 6, and bob may not modify the
  reply.
\<close>

theorem update_missing_comment_not_denied:
  "is_authenticated (request_user bob) \<and>
   review_request_get_object example_resources bob example_kwargs example_db = Some 1 \<and>
   review_reply_get_object example_resources bob example_kwargs example_db = Some draft_reply \<and>
   \<not> has_modify_permissions example_resources bob draft_reply \<and>
   update example_resources bob example_kwargs example_db = (Error DOES_NOT_EXIST, example_db) \<and>
   fst (update example_resources bob example_kwargs example_db) \<noteq> Error PERMISSION_DENIED"
  by (simp add: example_defs model_defs)

text \<open>
  C4, amended. For a caller who is logged in and may not modify the resolved reply, every
  create request, and every update request whose target comment resolves, is answered with
  \<^verbatim>\<open>PERMISSION_DENIED\<close> (status 403), and the store is as it was, journal included: no
  write was issued and the shared update routine was not called.
\<close>

theorem permission_denied_no_mutation:
  assumes "is_authenticated (request_user request)"
    and "review_request_get_object res request kw d = Some review_request"
    and "review_reply_get_object res request kw d = Some reply"
    and "\<not> has_modify_permissions res request reply"
  shows "create res request reply_to_id kw d = (Error PERMISSION_DENIED, d) \<and>
         (get_object res request kw d = Inr file_comment \<longrightarrow>
            update res request kw d = (Error PERMISSION_DENIED, d)) \<and>
         status_code (Error PERMISSION_DENIED) = Some 403"
  using assms by (simp add: create_def update_def no_access_error_def)

theorem permission_denied_no_mutation_witness:
  "is_authenticated (request_user bob) \<and>
   review_request_get_object example_resources bob example_kwargs replied_db = Some 1 \<and>
   review_reply_get_object example_resources bob example_kwargs replied_db = Some draft_reply \<and>
   \<not> has_modify_permissions example_resources bob draft_reply \<and>
   get_object example_resources bob example_kwargs replied_db = Inr reply_comment \<and>
   create example_resources bob 5 example_kwargs replied_db = (Error PERMISSION_DENIED, replied_db) \<and>
   update example_resources bob example_kwargs replied_db = (Error PERMISSION_DENIED, replied_db)"
proof -
  have h1: "is_authenticated (request_user bob)"
    by (simp add: example_defs)
  have h2: "review_request_get_object example_resources bob example_kwargs replied_db = Some 1"
    by (simp add: example_defs)
  have h3: "review_reply_get_object example_resources bob example_kwargs replied_db
              = Some draft_reply"
    by (simp add: example_defs)
  have h4: "\<not> has_modify_permissions example_resources bob draft_reply"
    by (simp add: example_defs)
  have h5: "get_object example_resources bob example_kwargs replied_db = Inr reply_comment"
    by (simp add: example_defs model_defs)
  show ?thesis
    using h1 h2 h3 h4 h5
      permission_denied_no_mutation [OF h1 h2 h3 h4, of 5 reply_comment]
    by simp
qed

text \<open>
  C5. For every pair of a review and a reply, the list query answers exactly the rows,
  among those the base class selects, that are joined to the review \<open>rep_id\<close> where that
  review's \<open>base_reply_to\<close> is \<open>rev_id\<close>; a comment that is not joined to \<open>rep_id\<close>, or
  whose reply answers another review, is not among them.
\<close>

theorem get_queryset_exact:
  "set (get_queryset res request rev_id rep_id kw d) =
     {c. c \<in> set (comments d) \<and> base_get_queryset res request kw d c \<and>
         in_review d c rep_id \<and> review_base_reply_to d rep_id rev_id} \<and>
   (\<not> in_review d c rep_id \<or> \<not> review_base_reply_to d rep_id rev_id
      \<longrightarrow> c \<notin> set (get_queryset res request rev_id rep_id kw d))"
  by (auto simp: get_queryset_def)

theorem get_queryset_exact_witness:
  "set (get_queryset example_resources alice 2 3 example_kwargs replied_db) = {reply_comment} \<and>
   \<not> in_review replied_db original_comment 3 \<and>
   original_comment \<notin> set (get_queryset example_resources alice 2 3 example_kwargs replied_db) \<and>
   \<not> review_base_reply_to replied_db 3 4 \<and>
   reply_comment \<notin> set (get_queryset example_resources alice 4 3 example_kwargs replied_db)"
proof -
  have h1: "\<not> in_review replied_db original_comment 3"
    by (simp add: example_defs in_review_def)
  have h2: "\<not> review_base_reply_to replied_db 3 4"
    by (simp add: example_defs review_base_reply_to_def)
  have c1: "set (get_queryset example_resources alice 2 3 example_kwargs replied_db)
              = {reply_comment}"
    using get_queryset_exact [where res = example_resources and request = alice
        and rev_id = 2 and rep_id = 3 and kw = example_kwargs and d = replied_db
        and c = original_comment]
    by (simp add: example_defs model_defs)
  have c2: "original_comment \<notin>
              set (get_queryset example_resources alice 2 3 example_kwargs replied_db)"
    using h1 get_queryset_exact [where res = example_resources and request = alice
        and rev_id = 2 and rep_id = 3 and kw = example_kwargs and d = replied_db
        and c = original_comment]
    by blast
  have c3: "reply_comment \<notin>
              set (get_queryset example_resources alice 4 3 example_kwargs replied_db)"
    using h2 get_queryset_exact [where res = example_resources and request = alice
        and rev_id = 4 and rep_id = 3 and kw = example_kwargs and d = replied_db
        and c = reply_comment]
    by blast
  show ?thesis
    by (intro conjI) (rule h1 h2 c1 c2 c3)+
qed

text \<open>
  C6. When the review request or the reply does not resolve, create answers
  \<^verbatim>\<open>DOES_NOT_EXIST\<close> (status 404); when the review request, the reply or the target
  comment does not resolve, update does. In each case the store is as it was.
\<close>

theorem not_found_no_state:
  "(review_request_get_object res request kw d = None \<or>
    review_reply_get_object res request kw d = None
      \<longrightarrow> create res request reply_to_id kw d = (Error DOES_NOT_EXIST, d)) \<and>
   (review_request_get_object res request kw d = None \<or>
    review_reply_get_object res request kw d = None \<or>
    (\<forall>c \<in> set (get_queryset_kw res request kw d). pk c \<noteq> Some (comment_id kw))
      \<longrightarrow> update res request kw d = (Error DOES_NOT_EXIST, d)) \<and>
   status_code (Error DOES_NOT_EXIST) = Some 404"
  by (auto simp: create_def update_def get_object_def filter_empty_conv[THEN iffD2]
      split: option.splits)

theorem not_found_no_state_witness:
  "review_request_get_object example_resources alice
     (example_kwargs\<lparr>review_request_id := 2\<rparr>) replied_db = None \<and>
   create example_resources alice 5 (example_kwargs\<lparr>review_request_id := 2\<rparr>) replied_db
     = (Error DOES_NOT_EXIST, replied_db) \<and>
   update example_resources alice (example_kwargs\<lparr>review_request_id := 2\<rparr>) replied_db
     = (Error DOES_NOT_EXIST, replied_db) \<and>
   get_queryset_kw example_resources alice example_kwargs example_db = [] \<and>
   update example_resources alice example_kwargs example_db = (Error DOES_NOT_EXIST, example_db)"
proof -
  have h1: "review_request_get_object example_resources alice
     (example_kwargs\<lparr>review_request_id := 2\<rparr>) replied_db = None"
    by (simp add: example_defs)
  have h2: "get_queryset_kw example_resources alice example_kwargs example_db = []"
    by (simp add: example_defs model_defs)
  show ?thesis
    using h1 h2
      not_found_no_state [of example_resources alice "example_kwargs\<lparr>review_request_id := 2\<rparr>"
        replied_db 5]
      not_found_no_state [of example_resources alice example_kwargs example_db 5]
    by simp
qed

text \<open>
  C8. A successful update answers 200 with a comment that differs from the row it was
  asked to update in the text and the text type at most; \<open>reply_to\<close> is the same. In the
  store that row is replaced by the answer and nothing else changes: not another row, not
  a review, not the relation.
\<close>

theorem update_changes_text_only:
  assumes "update res request kw d = (Response s c' hs, d')"
  shows "s = 200 \<and>
         (\<exists>c \<in> set (comments d).
            pk c = Some (comment_id kw) \<and>
            c' = c\<lparr>comment_text := comment_text c', comment_text_type := comment_text_type c'\<rparr> \<and>
            reply_to c' = reply_to c \<and>
            comments d' = map (\<lambda>x. if pk x = pk c then c' else x) (comments d) \<and>
            reviews d' = reviews d \<and>
            file_attachment_comments d' = file_attachment_comments d)"
proof -
  from assms obtain c where got: "get_object res request kw d = Inr c"
    and upd: "update_comment res c kw d = (c', d')" and s: "s = 200"
    by (auto simp: update_def no_access_error_def split: option.splits sum.splits if_splits
          prod.splits)
  from got have "c \<in> set (filter (\<lambda>c. pk c = Some (comment_id kw))
                    (get_queryset_kw res request kw d))"
    by (simp add: get_object_def queryset_get_Inr)
  then have mem: "c \<in> set (comments d)" and k: "pk c = Some (comment_id kw)"
    by (simp_all add: get_queryset_kw_def get_queryset_def)
  note u = update_comment_saved [OF mem k upd]
  have "reply_to c' = reply_to c"
    by (subst u(6)) simp
  moreover have "comments d' = map (\<lambda>x. if pk x = pk c then c' else x) (comments d)"
    by (simp add: u(2) k)
  ultimately show ?thesis
    using s mem k u(6) u(3) u(4) by blast
qed

theorem update_changes_text_only_witness:
  "update example_resources alice (example_kwargs\<lparr>text_arg := Some ''edited''\<rparr>) replied_db =
     (Response 200 (reply_comment\<lparr>comment_text := ''edited''\<rparr>) [],
      replied_db\<lparr>comments := [original_comment, reply_comment\<lparr>comment_text := ''edited''\<rparr>],
                 journal := journal replied_db @ [SaveComment 6, SaveReview 3]\<rparr>) \<and>
   reply_to (reply_comment\<lparr>comment_text := ''edited''\<rparr>) = reply_to reply_comment \<and>
   file_attachment_comments
     (replied_db\<lparr>comments := [original_comment, reply_comment\<lparr>comment_text := ''edited''\<rparr>],
                 journal := journal replied_db @ [SaveComment 6, SaveReview 3]\<rparr>)
     = file_attachment_comments replied_db"
proof -
  have h: "update example_resources alice (example_kwargs\<lparr>text_arg := Some ''edited''\<rparr>)
             replied_db =
     (Response 200 (reply_comment\<lparr>comment_text := ''edited''\<rparr>) [],
      replied_db\<lparr>comments := [original_comment, reply_comment\<lparr>comment_text := ''edited''\<rparr>],
                 journal := journal replied_db @ [SaveComment 6, SaveReview 3]\<rparr>)"
    by (simp add: example_defs model_defs)
  show ?thesis
    using h update_changes_text_only [OF h] by simp
qed




text \<open>
  C10. With the review request and the reply resolved and a caller who may not modify the
  reply: update answers \<^verbatim>\<open>DOES_NOT_EXIST\<close> when the target comment is missing, since
  the three lookups come before the permission check; create answers
  \<^verbatim>\<open>PERMISSION_DENIED\<close> to a logged-in caller even when \<open>reply_to_id\<close> names no
  comment, since the permission check comes before that lookup.
\<close>

theorem lookup_and_permission_order:
  assumes "review_request_get_object res request kw d = Some review_request"
    and "review_reply_get_object res request kw d = Some reply"
    and "\<not> has_modify_permissions res request reply"
  shows "((\<forall>c \<in> set (get_queryset_kw res request kw d). pk c \<noteq> Some (comment_id kw))
            \<longrightarrow> update res request kw d = (Error DOES_NOT_EXIST, d)) \<and>
         (is_authenticated (request_user request) \<and>
          review_file_attachment_comment_get_object res request reply_to_id kw d = None
            \<longrightarrow> create res request reply_to_id kw d = (Error PERMISSION_DENIED, d))"
  using assms
  by (auto simp: create_def update_def get_object_def no_access_error_def
        filter_empty_conv[THEN iffD2])

theorem lookup_and_permission_order_witness:
  "review_request_get_object example_resources bob example_kwargs example_db = Some 1 \<and>
   review_reply_get_object example_resources bob example_kwargs example_db = Some draft_reply \<and>
   \<not> has_modify_permissions example_resources bob draft_reply \<and>
   get_queryset_kw example_resources bob example_kwargs example_db = [] \<and>
   is_authenticated (request_user bob) \<and>
   review_file_attachment_comment_get_object example_resources bob 7 example_kwargs example_db
     = None \<and>
   update example_resources bob example_kwargs example_db = (Error DOES_NOT_EXIST, example_db) \<and>
   create example_resources bob 7 example_kwargs example_db = (Error PERMISSION_DENIED, example_db)"
proof -
  have h1: "review_request_get_object example_resources bob example_kwargs example_db = Some 1"
    by (simp add: example_defs)
  have h2: "review_reply_get_object example_resources bob example_kwargs example_db
              = Some draft_reply"
    by (simp add: example_defs)
  have h3: "\<not> has_modify_permissions example_resources bob draft_reply"
    by (simp add: example_defs)
  have h4: "get_queryset_kw example_resources bob example_kwargs example_db = []"
    by (simp add: example_defs model_defs)
  have h5: "is_authenticated (request_user bob)"
    by (simp add: example_defs)
  have h6: "review_file_attachment_comment_get_object example_resources bob 7 example_kwargs
              example_db = None"
    by (simp add: example_defs)
  show ?thesis
    using h1 h2 h3 h4 h5 h6 lookup_and_permission_order [OF h1 h2 h3, of 7]
    by simp
qed

end
